theory Spec2Isabelle
  imports Main
begin

section \<open>The Home component of frontend/src/app/page.tsx\<close>

text \<open>
  The component keeps six pieces of React state, opens one WebSocket when it mounts and
  has three handlers: \<^verbatim>\<open>ws.onmessage\<close>, \<^verbatim>\<open>handleSubmit\<close> and \<^verbatim>\<open>handleStop\<close>.
  Each handler is a function from the state (and what it receives) to the new state and
  the effects it issues.  TypeScript's types are erased when the program runs, so an
  inbound message is whatever \<^verbatim>\<open>JSON.parse\<close> returns, not a value of the three
  interfaces.
\<close>

subsection \<open>Values\<close>

text \<open>
  The values \<^verbatim>\<open>JSON.parse\<close> can return, and \<^verbatim>\<open>undefined\<close> for the read of a
  missing property.  A JavaScript number is an IEEE double.  \<open>JNum n\<close> is a whole
  number of magnitude up to \<^verbatim>\<open>Number.MAX_SAFE_INTEGER\<close> (\<open>2^53 - 1\<close>): these are the
  integers that \<^verbatim>\<open>JSON.parse\<close> returns without rounding and that JavaScript prints
  digit for digit.  \<open>JNumOther r\<close> is any other number (a fraction, or a larger one),
  given by the text \<open>r\<close> that JavaScript prints for it, such as \<^verbatim>\<open>1e+21\<close> or
  \<^verbatim>\<open>0.5\<close>; such a number is not zero.  \<open>JObj kvs\<close> lists the own properties of an
  object, each name once.  \<open>valid\<close> below says which terms stand for a value that
  \<^verbatim>\<open>JSON.parse\<close> returns.
\<close>

datatype jsval =
    JUndefined
  | JNull
  | JBool bool
  | JNum int
  | JNumOther string
  | JStr string
  | JArr "jsval list"
  | JObj "(string \<times> jsval) list"

text \<open>\<^verbatim>\<open>Number.isSafeInteger\<close>, on whole numbers.\<close>

definition safe_integer :: "int \<Rightarrow> bool" where
  "safe_integer n = (- 9007199254740991 \<le> n \<and> n \<le> 9007199254740991)"

text \<open>
  The terms that stand for a value of \<^verbatim>\<open>JSON.parse\<close>: no \<^verbatim>\<open>undefined\<close> anywhere,
  every \<open>JNum\<close> a safe integer, and no name twice in an object.
\<close>

fun valid :: "jsval \<Rightarrow> bool"
  and valid_elems :: "jsval list \<Rightarrow> bool"
  and valid_props :: "(string \<times> jsval) list \<Rightarrow> bool" where
  "valid JUndefined = False"
| "valid JNull = True"
| "valid (JBool b) = True"
| "valid (JNum n) = safe_integer n"
| "valid (JNumOther r) = True"
| "valid (JStr s) = True"
| "valid (JArr xs) = valid_elems xs"
| "valid (JObj kvs) = (distinct (map fst kvs) \<and> valid_props kvs)"
| "valid_elems [] = True"
| "valid_elems (x # xs) = (valid x \<and> valid_elems xs)"
| "valid_props [] = True"
| "valid_props (kv # kvs) = (valid (snd kv) \<and> valid_props kvs)"

text \<open>
  A frame of the channel as the handler meets it: text that \<^verbatim>\<open>JSON.parse\<close> rejects
  (\<open>None\<close>), or the value it returns.
\<close>

fun valid_frame :: "jsval option \<Rightarrow> bool" where
  "valid_frame None = True"
| "valid_frame (Some d) = valid d"

text \<open>
  Decimal digits of a number, as \<^verbatim>\<open>Number.prototype.toString\<close> prints a safe
  integer, and the number that a string of decimal digits denotes.
\<close>

fun digits :: "nat \<Rightarrow> string" where
  "digits n = (if n < 10 then [''0123456789'' ! n]
               else digits (n div 10) @ [''0123456789'' ! (n mod 10)])"

declare digits.simps [simp del]

definition show_int :: "int \<Rightarrow> string" where
  "show_int i = (if i < 0 then CHR ''-'' # digits (nat (- i)) else digits (nat i))"

definition decimal :: "string \<Rightarrow> nat" where
  "decimal ds = foldl (\<lambda>acc c. 10 * acc + (of_char c - 48)) 0 ds"

text \<open>
  \<^verbatim>\<open>`${v}`\<close>: the string a template literal makes of a value, \<open>None\<close> when the
  conversion throws a TypeError.  An object of \<^verbatim>\<open>JSON.parse\<close> prints as
  \<^verbatim>\<open>[object Object]\<close> unless it has an own property \<^verbatim>\<open>toString\<close>: that property
  is data, not a function, and hides \<^verbatim>\<open>Object.prototype.toString\<close>, and
  \<^verbatim>\<open>valueOf\<close> gives no primitive, so the conversion throws.  An array prints its
  elements joined by commas, \<^verbatim>\<open>null\<close> and \<^verbatim>\<open>undefined\<close> as the empty string.
\<close>

fun to_string :: "jsval \<Rightarrow> string option"
  and join_elems :: "jsval list \<Rightarrow> string option" where
  "to_string JUndefined = Some ''undefined''"
| "to_string JNull = Some ''null''"
| "to_string (JBool b) = Some (if b then ''true'' else ''false'')"
| "to_string (JNum n) = Some (show_int n)"
| "to_string (JNumOther r) = Some r"
| "to_string (JStr s) = Some s"
| "to_string (JArr xs) = join_elems xs"
| "to_string (JObj kvs) =
     (if ''toString'' \<in> set (map fst kvs) then None else Some ''[object Object]'')"
| "join_elems [] = Some []"
| "join_elems (x # xs) =
     (case (if x = JUndefined \<or> x = JNull then Some [] else to_string x) of
        None \<Rightarrow> None
      | Some a \<Rightarrow>
          (if xs = [] then Some a
           else (case join_elems xs of None \<Rightarrow> None | Some b \<Rightarrow> Some (a @ '','' @ b))))"

text \<open>
  What React accepts as a child in \<^verbatim>\<open>{result}\<close> and \<^verbatim>\<open>{error}\<close>: strings and
  numbers are shown, booleans, \<^verbatim>\<open>null\<close> and \<^verbatim>\<open>undefined\<close> show nothing, an array
  is accepted when each element is, and an object of \<^verbatim>\<open>JSON.parse\<close> makes the render
  throw (\<^verbatim>\<open>Objects are not valid as a React child\<close>).
\<close>

fun renderable :: "jsval \<Rightarrow> bool"
  and renderable_elems :: "jsval list \<Rightarrow> bool" where
  "renderable (JObj kvs) = False"
| "renderable (JArr xs) = renderable_elems xs"
| "renderable v = True"
| "renderable_elems [] = True"
| "renderable_elems (x # xs) = (renderable x \<and> renderable_elems xs)"

text \<open>\<^verbatim>\<open>if (v)\<close>: the values JavaScript takes as true.\<close>

fun truthy :: "jsval \<Rightarrow> bool" where
  "truthy JUndefined = False"
| "truthy JNull = False"
| "truthy (JBool b) = b"
| "truthy (JNum n) = (n \<noteq> 0)"
| "truthy (JNumOther r) = True"
| "truthy (JStr s) = (s \<noteq> [])"
| "truthy (JArr xs) = True"
| "truthy (JObj kvs) = True"

text \<open>
  \<^verbatim>\<open>"status" in v\<close>: a TypeError (\<open>None\<close>) on a value that is not an object.  No
  prototype defines \<^verbatim>\<open>status\<close> and no array has it, so on an object the answer is
  whether it is an own property, and on an array it is no.
\<close>

fun status_in :: "jsval \<Rightarrow> bool option" where
  "status_in (JObj kvs) = Some (''status'' \<in> set (map fst kvs))"
| "status_in (JArr xs) = Some False"
| "status_in v = None"

text \<open>
  \<^verbatim>\<open>v.k\<close> for the names the handler reads (\<^verbatim>\<open>status\<close>, \<^verbatim>\<open>result\<close>,
  \<^verbatim>\<open>message\<close>, \<^verbatim>\<open>step\<close>, \<^verbatim>\<open>thought\<close>, \<^verbatim>\<open>screenshot\<close>): the own property, and
  \<^verbatim>\<open>undefined\<close> when there is none.  The handler reads properties only after
  \<^verbatim>\<open>in\<close> has succeeded, so never from a primitive.
\<close>

fun get_prop :: "jsval \<Rightarrow> string \<Rightarrow> jsval" where
  "get_prop (JObj kvs) k = (case map_of kvs k of Some v \<Rightarrow> v | None \<Rightarrow> JUndefined)"
| "get_prop v k = JUndefined"

subsection \<open>The three message interfaces\<close>

text \<open>
  \<^verbatim>\<open>StepData\<close>, \<^verbatim>\<open>DoneData\<close> and \<^verbatim>\<open>ErrorData\<close> as the objects a sender following
  the interfaces puts on the channel; the optional \<^verbatim>\<open>screenshot\<close> is present or not.
  The step of \<open>StepData\<close> is a whole number, which the handler receives as it was sent
  when it is a safe integer: a statement about the text of the step assumes
  \<open>safe_integer\<close>.
\<close>

definition StepData :: "int \<Rightarrow> string \<Rightarrow> jsval list \<Rightarrow> string option \<Rightarrow> jsval" where
  "StepData step thought actions shot =
     JObj ([(''step'', JNum step), (''thought'', JStr thought), (''actions'', JArr actions)]
           @ (case shot of None \<Rightarrow> [] | Some p \<Rightarrow> [(''screenshot'', JStr p)]))"

definition DoneData :: "string \<Rightarrow> jsval" where
  "DoneData r = JObj [(''status'', JStr ''done''), (''result'', JStr r)]"

definition ErrorData :: "string \<Rightarrow> jsval" where
  "ErrorData m = JObj [(''status'', JStr ''error''), (''message'', JStr m)]"

subsection \<open>State and effects\<close>

text \<open>
  The six \<^verbatim>\<open>useState\<close> cells.  \<^verbatim>\<open>result\<close> and \<^verbatim>\<open>error\<close> are declared
  \<^verbatim>\<open>string\<close> and \<^verbatim>\<open>string | null\<close>, and receive \<^verbatim>\<open>data.result\<close> and
  \<^verbatim>\<open>data.message\<close> unchecked, so they hold values; \<^verbatim>\<open>null\<close> is \<open>JNull\<close>.
\<close>

record session =
  task :: string
  logs :: "string list"
  screenshot :: "string option"
  result :: jsval
  error :: jsval
  isLoading :: bool

definition initial :: session where
  "initial = \<lparr> task = ''Navigate to https://www.google.com, input 'Python' into the search bar, wait 5 seconds, click the first search result link using a CSS selector like 'h3' within 'a', wait 5 seconds, then extract all text content from the page.'',
     logs = [], screenshot = None, result = JStr [], error = JNull, isLoading = False \<rparr>"

datatype effect =
    PreventDefault
  | Fetch string
  | WsSend string
  | ConsoleLog jsval

datatype exn = SyntaxError | TypeError

text \<open>
  What a run of \<^verbatim>\<open>ws.onmessage\<close> leaves: the handler returned; or it threw, after the
  state updates it had already queued; or the render that follows threw, which takes the
  component down (there is no error boundary): the updater given to \<^verbatim>\<open>setLogs\<close> runs
  during the render, and the render puts \<^verbatim>\<open>result\<close> and \<^verbatim>\<open>error\<close> on the page as
  children.
\<close>

datatype outcome =
    Updated session
  | Thrown exn session
  | Crashed

subsection \<open>ws.onmessage\<close>

text \<open>
  The argument is what \<^verbatim>\<open>JSON.parse(event.data)\<close> gives: \<open>None\<close> when it throws a
  SyntaxError (the frame is not JSON text), the parsed value otherwise.
  \<^item> \<^verbatim>\<open>"status" in data\<close> throws on a primitive, before any state is set.
  \<^item> With a \<^verbatim>\<open>status\<close>: \<^verbatim>\<open>"done"\<close> sets \<^verbatim>\<open>result\<close> and clears
    \<^verbatim>\<open>isLoading\<close>, \<^verbatim>\<open>"error"\<close> sets \<^verbatim>\<open>error\<close> and clears \<^verbatim>\<open>isLoading\<close>, any
    other status falls through both tests.  The value is stored unchecked; the render
    shows it in \<^verbatim>\<open>{result && ... {result} ...}\<close> or \<^verbatim>\<open>{error && ... {error} ...}\<close>,
    and throws when it is not a child React accepts.  A value that is not truthy is
    not an object and is accepted, so the render fails exactly when the value is not
    \<open>renderable\<close>.
  \<^item> Without one the value is cast to \<^verbatim>\<open>StepData\<close>: \<^verbatim>\<open>setLogs\<close> gets an updater
    that appends the line, and a truthy \<^verbatim>\<open>screenshot\<close> is prefixed and stored.  The
    line is built inside the updater, so a conversion that throws there throws during
    the render; the screenshot's text is built in the handler, after \<^verbatim>\<open>setLogs\<close>.
\<close>

definition step_line :: "jsval \<Rightarrow> string option" where
  "step_line stepData =
     (case to_string (get_prop stepData ''step'') of
        None \<Rightarrow> None
      | Some n \<Rightarrow>
          (case to_string (get_prop stepData ''thought'') of
             None \<Rightarrow> None
           | Some t \<Rightarrow> Some (''Step '' @ n @ '': '' @ t)))"

definition onmessage :: "jsval option \<Rightarrow> session \<Rightarrow> outcome" where
  "onmessage parsed s =
     (case parsed of
        None \<Rightarrow> Thrown SyntaxError s
      | Some data \<Rightarrow>
          (case status_in data of
             None \<Rightarrow> Thrown TypeError s
           | Some True \<Rightarrow>
               (if get_prop data ''status'' = JStr ''done''
                then (if renderable (get_prop data ''result'')
                      then Updated (s\<lparr>result := get_prop data ''result'', isLoading := False\<rparr>)
                      else Crashed)
                else if get_prop data ''status'' = JStr ''error''
                then (if renderable (get_prop data ''message'')
                      then Updated (s\<lparr>error := get_prop data ''message'', isLoading := False\<rparr>)
                      else Crashed)
                else Updated s)
           | Some False \<Rightarrow>
               (case step_line data of
                  None \<Rightarrow> Crashed
                | Some line \<Rightarrow>
                    (if truthy (get_prop data ''screenshot'')
                     then (case to_string (get_prop data ''screenshot'') of
                             None \<Rightarrow> Thrown TypeError (s\<lparr>logs := logs s @ [line]\<rparr>)
                           | Some shot \<Rightarrow>
                               Updated (s\<lparr>logs := logs s @ [line],
                                          screenshot := Some (''data:image/png;base64,'' @ shot)\<rparr>))
                     else Updated (s\<lparr>logs := logs s @ [line]\<rparr>)))))"

text \<open>
  The session given to the handler is that of a mounted component: its \<^verbatim>\<open>result\<close>
  and \<^verbatim>\<open>error\<close> have been rendered already, so the render after the handler can fail
  only on what the handler sets.

  The channel delivers messages one at a time, each handled on the state the one before
  left.  A handler that threw leaves the state it had set; once the component has
  crashed there is no state (\<open>None\<close>).
\<close>

fun deliver :: "jsval option list \<Rightarrow> session \<Rightarrow> session option" where
  "deliver [] s = Some s"
| "deliver (m # ms) s =
     (case onmessage m s of
        Updated s' \<Rightarrow> deliver ms s'
      | Thrown e s' \<Rightarrow> deliver ms s'
      | Crashed \<Rightarrow> None)"

subsection \<open>handleSubmit\<close>

text \<open>
  Up to the \<^verbatim>\<open>await\<close>: \<^verbatim>\<open>e.preventDefault()\<close>, the guard
  \<^verbatim>\<open>if (!task || isLoading) return\<close>, the five resets and the one \<^verbatim>\<open>fetch\<close>, whose
  body is the task.
\<close>

definition handleSubmit_begin :: "session \<Rightarrow> session \<times> effect list" where
  "handleSubmit_begin s =
     (if task s = [] \<or> isLoading s then (s, [PreventDefault])
      else (s\<lparr>logs := [], screenshot := None, result := JStr [], error := JNull,
               isLoading := True\<rparr>,
            [PreventDefault, Fetch (task s)]))"

text \<open>
  How the request ends: \<^verbatim>\<open>fetch\<close> rejects with an exception (its message), or gives
  a response with its \<^verbatim>\<open>ok\<close> flag and what \<^verbatim>\<open>response.json()\<close> does: rejects with
  an exception (its message) or gives the parsed body.
\<close>

datatype reply =
    Rejected string
  | Response bool "string + jsval"

text \<open>
  After the \<^verbatim>\<open>await\<close>: a response that is not \<^verbatim>\<open>ok\<close> throws
  \<^verbatim>\<open>Error("Failed to start task")\<close>; every exception of the \<^verbatim>\<open>try\<close> block reaches
  the \<^verbatim>\<open>catch\<close>, which sets \<^verbatim>\<open>error\<close> to its message and clears \<^verbatim>\<open>isLoading\<close>.
  The state is the one current when the request ends.
\<close>

definition catch_err :: "string \<Rightarrow> session \<Rightarrow> session \<times> effect list" where
  "catch_err message s = (s\<lparr>error := JStr message, isLoading := False\<rparr>, [])"

definition handleSubmit_end :: "reply \<Rightarrow> session \<Rightarrow> session \<times> effect list" where
  "handleSubmit_end r s =
     (case r of
        Rejected message \<Rightarrow> catch_err message s
      | Response ok body \<Rightarrow>
          (if \<not> ok then catch_err ''Failed to start task'' s
           else (case body of
                   Inl message \<Rightarrow> catch_err message s
                 | Inr data \<Rightarrow> (s, [ConsoleLog data]))))"

text \<open>
  One whole call: the part before the \<^verbatim>\<open>await\<close>, the channel messages that arrive
  while the request is out, and the part after it.  A call the guard turned away ends
  at the \<^verbatim>\<open>return\<close>.  \<open>None\<close> when a message crashed the component meanwhile.
\<close>

definition handleSubmit ::
  "reply \<Rightarrow> jsval option list \<Rightarrow> session \<Rightarrow> (session \<times> effect list) option" where
  "handleSubmit r arriving s =
     (if task s = [] \<or> isLoading s then Some (handleSubmit_begin s)
      else (case deliver arriving (fst (handleSubmit_begin s)) of
              None \<Rightarrow> None
            | Some s' \<Rightarrow>
                Some (fst (handleSubmit_end r s'),
                      snd (handleSubmit_begin s) @ snd (handleSubmit_end r s'))))"

subsection \<open>handleStop and the Stop button\<close>

text \<open>
  \<^verbatim>\<open>wsRef.current\<close> is \<^verbatim>\<open>null\<close> (\<open>None\<close>) or the socket, of which the handler reads
  \<^verbatim>\<open>readyState\<close>.
\<close>

datatype readyState = CONNECTING | OPEN | CLOSING | CLOSED

definition handleStop :: "readyState option \<Rightarrow> session \<Rightarrow> session \<times> effect list" where
  "handleStop wsRef s =
     (case wsRef of
        None \<Rightarrow> (s, [])
      | Some st \<Rightarrow> (if st = OPEN then (s, [WsSend ''stop'']) else (s, [])))"

text \<open>
  The Stop button carries \<^verbatim>\<open>disabled={!isLoading}\<close> and \<^verbatim>\<open>onClick={handleStop}\<close>:
  a disabled button dispatches no click.
\<close>

definition stop_click :: "readyState option \<Rightarrow> session \<Rightarrow> session \<times> effect list" where
  "stop_click wsRef s = (if \<not> isLoading s then (s, []) else handleStop wsRef s)"

subsection \<open>Counting requests\<close>

text \<open>The bodies of the requests among the effects of a call, in the order issued.\<close>

fun requests :: "effect list \<Rightarrow> string list" where
  "requests [] = []"
| "requests (Fetch body # es) = body # requests es"
| "requests (e # es) = requests es"

section \<open>What the handler does with the three interfaces\<close>

lemma onmessage_StepData:
  "onmessage (Some (StepData n t a p)) s =
     Updated (s\<lparr>logs := logs s @ [''Step '' @ show_int n @ '': '' @ t],
                screenshot := (case p of None \<Rightarrow> screenshot s
                               | Some q \<Rightarrow> if q = [] then screenshot s
                                          else Some (''data:image/png;base64,'' @ q))\<rparr>)"
  by (cases p) (simp_all add: onmessage_def StepData_def step_line_def)

lemma onmessage_DoneData:
  "onmessage (Some (DoneData r)) s = Updated (s\<lparr>result := JStr r, isLoading := False\<rparr>)"
  by (simp add: onmessage_def DoneData_def)

lemma onmessage_ErrorData:
  "onmessage (Some (ErrorData m)) s = Updated (s\<lparr>error := JStr m, isLoading := False\<rparr>)"
  by (simp add: onmessage_def ErrorData_def)

lemma show_int_digit: "0 \<le> i \<Longrightarrow> i < 10 \<Longrightarrow> show_int i = [''0123456789'' ! nat i]"
  by (simp add: show_int_def digits.simps)

text \<open>
  \<open>digits\<close> is the decimal numeral: it denotes the number, it is made of decimal digits,
  and it has no leading zero.
\<close>

lemma below_ten: "(k::nat) < 10 \<Longrightarrow> k \<in> set [0, 1, 2, 3, 4, 5, 6, 7, 8, 9]"
  by (simp, arith)

lemma digit_char: "n < 10 \<Longrightarrow> of_char (''0123456789'' ! n) = (48::nat) + n"
proof -
  assume "n < 10"
  then consider "n = 0" | "n = 1" | "n = 2" | "n = 3" | "n = 4" | "n = 5" | "n = 6"
    | "n = 7" | "n = 8" | "n = 9"
    using below_ten [of n] by auto
  then show ?thesis by cases simp_all
qed

lemma decimal_snoc: "decimal (ds @ [c]) = 10 * decimal ds + (of_char c - 48)"
  by (simp add: decimal_def)

lemma decimal_digits: "decimal (digits n) = n"
proof (induction n rule: digits.induct)
  case (1 n)
  show ?case
  proof (cases "n < 10")
    case True
    then show ?thesis
      by (subst digits.simps) (simp add: decimal_def digit_char)
  next
    case False
    then have "decimal (digits (n div 10)) = n div 10" using 1 by simp
    with False show ?thesis
      by (subst digits.simps) (simp add: decimal_snoc digit_char)
  qed
qed

lemma digits_decimal_digits: "set (digits n) \<subseteq> set ''0123456789''"
proof (induction n rule: digits.induct)
  case (1 n)
  have m: "''0123456789'' ! k \<in> set ''0123456789''" if "k < 10" for k
    using that nth_mem [of k "''0123456789''"] by simp
  show ?case
  proof (cases "n < 10")
    case True
    then show ?thesis
      using m [of n] by (subst digits.simps) simp
  next
    case False
    then have "set (digits (n div 10)) \<subseteq> set ''0123456789''" using 1 by simp
    with False show ?thesis
      using m [of "n mod 10"] by (subst digits.simps) simp
  qed
qed

lemma digits_no_leading_zero: "digits n \<noteq> [] \<and> (0 < n \<longrightarrow> hd (digits n) \<noteq> CHR ''0'')"
proof (induction n rule: digits.induct)
  case (1 n)
  show ?case
  proof (cases "n < 10")
    case True
    then consider "n = 0" | "n = 1" | "n = 2" | "n = 3" | "n = 4" | "n = 5" | "n = 6"
      | "n = 7" | "n = 8" | "n = 9"
      using below_ten [of n] by auto
    then show ?thesis
      by cases (simp_all add: digits.simps)
  next
    case False
    then have ih: "digits (n div 10) \<noteq> [] \<and> (0 < n div 10 \<longrightarrow> hd (digits (n div 10)) \<noteq> CHR ''0'')"
      using 1 by simp
    from False have "0 < n div 10" by simp
    with ih False show ?thesis
      by (subst digits.simps, subst (2) digits.simps) simp
  qed
qed



section \<open>The log of a running session\<close>



section \<open>Terminal events\<close>

text \<open>
  Claim C7.  Applying the same terminal event twice in succession, be it the completion
  or the failure, leaves the very state that applying it once leaves: the same running
  flag (phase), the same result and error (terminal outcome), and the same everything
  else.
\<close>

theorem terminal_event_idempotent:
  "deliver [Some (DoneData r), Some (DoneData r)] s = deliver [Some (DoneData r)] s
   \<and> deliver [Some (ErrorData m), Some (ErrorData m)] s = deliver [Some (ErrorData m)] s"
  by (simp add: onmessage_DoneData onmessage_ErrorData)

text \<open>
  Claim C10.  The completion event leaves \<^verbatim>\<open>error\<close> as it was, and the failure event
  leaves \<^verbatim>\<open>result\<close> as it was.  So after one terminal event of each kind, in either
  order and with no submission between them, \<^verbatim>\<open>result\<close> holds the completion's text
  and \<^verbatim>\<open>error\<close> the failure's message, both at once.
\<close>

theorem terminal_events_keep_each_other:
  "map_option error (deliver [Some (DoneData r)] s) = Some (error s)
   \<and> map_option result (deliver [Some (ErrorData m)] s) = Some (result s)
   \<and> deliver [Some (DoneData r), Some (ErrorData m)] s =
       Some (s\<lparr>result := JStr r, error := JStr m, isLoading := False\<rparr>)
   \<and> deliver [Some (ErrorData m), Some (DoneData r)] s =
       Some (s\<lparr>result := JStr r, error := JStr m, isLoading := False\<rparr>)"
  by (simp add: onmessage_DoneData onmessage_ErrorData)

section \<open>Cancellation\<close>

text \<open>
  Claim C9.  \<^verbatim>\<open>handleStop\<close> returns the state it was given, whatever the phase: the
  task, the log, the screenshot, the result, the error and the running flag are the
  same.  All it can do is write the one token \<^verbatim>\<open>stop\<close> on the channel, which it does
  exactly when the socket exists and is open.
\<close>

theorem handleStop_state_unchanged:
  "fst (handleStop wsRef s) = s
   \<and> snd (handleStop wsRef s) = (if wsRef = Some OPEN then [WsSend ''stop''] else [])"
  by (cases wsRef) (simp_all add: handleStop_def)

section \<open>Step events after a terminal event\<close>

text \<open>
  Claim C1 says that once a terminal event has been applied, and before a new
  submission, a further step event leaves the state as it is.  The handler does not
  look at \<^verbatim>\<open>isLoading\<close> before it appends.  Here the session of the spec's Scenario B
  has received its completion; the step event that follows adds a second line to the log
  and sets the screenshot.
\<close>

theorem step_after_terminal_counterexample:
  "deliver [Some (DoneData ''OK'')]
     \<lparr>task = ''task X'', logs = [''Step 1: searching''], screenshot = None,
        result = JStr [], error = JNull, isLoading = True\<rparr> =
     Some \<lparr>task = ''task X'', logs = [''Step 1: searching''], screenshot = None,
        result = JStr ''OK'', error = JNull, isLoading = False\<rparr>
   \<and> onmessage (Some (StepData 2 ''clicking'' [] (Some ''QUJD'')))
       \<lparr>task = ''task X'', logs = [''Step 1: searching''], screenshot = None,
          result = JStr ''OK'', error = JNull, isLoading = False\<rparr> =
     Updated \<lparr>task = ''task X'', logs = [''Step 1: searching'', ''Step 2: clicking''],
        screenshot = Some ''data:image/png;base64,QUJD'',
        result = JStr ''OK'', error = JNull, isLoading = False\<rparr>"
  by (simp add: onmessage_DoneData onmessage_StepData show_int_digit)

text \<open>
  Claim C1, amended.  After a terminal event (completion or failure) and before any new
  submission, a further step event, its step index a safe integer, is still applied: its
  line is appended, so the log grows by one, and a payload that is not empty replaces
  the screenshot.  The step event leaves the running flag, the result and the error as
  the terminal event set them.
\<close>

theorem step_after_terminal_applied:
  assumes "safe_integer n"
  shows "deliver [Some (DoneData r), Some (StepData n t a p)] s =
     Some (s\<lparr>result := JStr r, isLoading := False,
              logs := logs s @ [''Step '' @ show_int n @ '': '' @ t],
              screenshot := (case p of None \<Rightarrow> screenshot s
                             | Some q \<Rightarrow> if q = [] then screenshot s
                                        else Some (''data:image/png;base64,'' @ q))\<rparr>)
   \<and> deliver [Some (ErrorData m), Some (StepData n t a p)] s =
     Some (s\<lparr>error := JStr m, isLoading := False,
              logs := logs s @ [''Step '' @ show_int n @ '': '' @ t],
              screenshot := (case p of None \<Rightarrow> screenshot s
                             | Some q \<Rightarrow> if q = [] then screenshot s
                                        else Some (''data:image/png;base64,'' @ q))\<rparr>)
   \<and> map_option (length \<circ> logs) (deliver [Some (DoneData r), Some (StepData n t a p)] s) =
       Some (Suc (length (logs s)))
   \<and> map_option (length \<circ> logs) (deliver [Some (ErrorData m), Some (StepData n t a p)] s) =
       Some (Suc (length (logs s)))"
  by (cases p) (simp_all add: onmessage_DoneData onmessage_ErrorData onmessage_StepData)

theorem step_after_terminal_applied_witness:
  "safe_integer 12
   \<and> deliver [Some (ErrorData ''timeout''), Some (StepData 12 ''retrying'' [] None)]
       \<lparr>task = ''task X'', logs = [''Step 11: waiting''],
          screenshot = Some ''data:image/png;base64,QUJD'',
          result = JStr [], error = JNull, isLoading = True\<rparr> =
     Some \<lparr>task = ''task X'', logs = [''Step 11: waiting'', ''Step 12: retrying''],
          screenshot = Some ''data:image/png;base64,QUJD'',
          result = JStr [], error = JStr ''timeout'', isLoading = False\<rparr>"
proof -
  have safe: "safe_integer 12" by (simp add: safe_integer_def)
  show ?thesis
    using safe
      step_after_terminal_applied [OF safe, where m = "''timeout''" and t = "''retrying''"
        and a = "[]" and p = None
        and s = "\<lparr>task = ''task X'', logs = [''Step 11: waiting''],
          screenshot = Some ''data:image/png;base64,QUJD'',
          result = JStr [], error = JNull, isLoading = True\<rparr>"]
    by (simp add: show_int_def digits.simps)
qed

section \<open>Messages of neither shape\<close>

text \<open>
  Claim C2 says that a message of neither shape, and the one without \<^verbatim>\<open>status\<close> and
  without \<^verbatim>\<open>step\<close> in particular, is discarded with the log unchanged.  The handler
  tells the shapes apart by \<^verbatim>\<open>"status" in data\<close> alone: the empty object goes to the
  step branch and adds a line to the log of the session just created.
\<close>

theorem malformed_message_counterexample:
  "logs initial = []
   \<and> onmessage (Some (JObj [])) initial =
       Updated (initial\<lparr>logs := [''Step undefined: undefined'']\<rparr>)"
  by (simp add: onmessage_def step_line_def initial_def)

text \<open>
  Claim C2, amended.  No message is checked against the two shapes; what the handler
  does with a value \<open>d\<close> of \<^verbatim>\<open>JSON.parse\<close> follows from \<^verbatim>\<open>status\<close> alone.
  \<^item> Text that is not JSON, and a JSON primitive: the handler throws before it sets any
    state.  An object whose \<^verbatim>\<open>status\<close> is neither \<^verbatim>\<open>"done"\<close> nor \<^verbatim>\<open>"error"\<close>:
    the handler returns without setting any state.  All of these leave the running
    flag, the log, the screenshot, the result and the error unchanged.
  \<^item> An object with \<^verbatim>\<open>status\<close> \<^verbatim>\<open>"done"\<close> is applied as a completion whatever its
    \<^verbatim>\<open>result\<close> is, and one with \<^verbatim>\<open>"error"\<close> as a failure whatever its
    \<^verbatim>\<open>message\<close> is: the running flag is cleared and the value stored,
    \<^verbatim>\<open>undefined\<close> when the field is missing.  When the value is an object, or an array
    holding one, the render that follows throws and the component is unmounted.
  \<^item> An object or array without \<^verbatim>\<open>status\<close> is applied as a step event whatever its
    fields are: the line \<^verbatim>\<open>Step {step}: {thought}\<close> is appended, made of the text
    JavaScript gives the two values, and the running flag, the result and the error are
    unchanged.  A \<^verbatim>\<open>screenshot\<close> that is not truthy leaves the screenshot; a truthy one
    replaces it by the data URL of its text; a truthy one that has no text makes the
    handler throw after the line is appended, with the screenshot unchanged.  When
    \<^verbatim>\<open>step\<close> or \<^verbatim>\<open>thought\<close> has no text the component is unmounted.  Without
    \<^verbatim>\<open>step\<close> the line is \<^verbatim>\<open>Step undefined: {thought}\<close>.
\<close>

theorem malformed_message:
  assumes "valid d"
  shows "onmessage None s = Thrown SyntaxError s
   \<and> (status_in d = None \<longrightarrow> onmessage (Some d) s = Thrown TypeError s)
   \<and> (status_in d = Some True \<and> get_prop d ''status'' \<noteq> JStr ''done''
        \<and> get_prop d ''status'' \<noteq> JStr ''error'' \<longrightarrow>
        onmessage (Some d) s = Updated s)
   \<and> (status_in d = Some True \<and> get_prop d ''status'' = JStr ''done'' \<longrightarrow>
        onmessage (Some d) s =
          (if renderable (get_prop d ''result'')
           then Updated (s\<lparr>result := get_prop d ''result'', isLoading := False\<rparr>)
           else Crashed))
   \<and> (status_in d = Some True \<and> get_prop d ''status'' = JStr ''error'' \<longrightarrow>
        onmessage (Some d) s =
          (if renderable (get_prop d ''message'')
           then Updated (s\<lparr>error := get_prop d ''message'', isLoading := False\<rparr>)
           else Crashed))
   \<and> (status_in d = Some False \<and> to_string (get_prop d ''step'') = Some n
        \<and> to_string (get_prop d ''thought'') = Some t
        \<and> \<not> truthy (get_prop d ''screenshot'') \<longrightarrow>
        onmessage (Some d) s = Updated (s\<lparr>logs := logs s @ [''Step '' @ n @ '': '' @ t]\<rparr>))
   \<and> (status_in d = Some False \<and> to_string (get_prop d ''step'') = Some n
        \<and> to_string (get_prop d ''thought'') = Some t
        \<and> truthy (get_prop d ''screenshot'')
        \<and> to_string (get_prop d ''screenshot'') = Some shot \<longrightarrow>
        onmessage (Some d) s =
          Updated (s\<lparr>logs := logs s @ [''Step '' @ n @ '': '' @ t],
                     screenshot := Some (''data:image/png;base64,'' @ shot)\<rparr>))
   \<and> (status_in d = Some False \<and> to_string (get_prop d ''step'') = Some n
        \<and> to_string (get_prop d ''thought'') = Some t
        \<and> truthy (get_prop d ''screenshot'')
        \<and> to_string (get_prop d ''screenshot'') = None \<longrightarrow>
        onmessage (Some d) s =
          Thrown TypeError (s\<lparr>logs := logs s @ [''Step '' @ n @ '': '' @ t]\<rparr>))
   \<and> (status_in d = Some False
        \<and> (to_string (get_prop d ''step'') = None \<or> to_string (get_prop d ''thought'') = None) \<longrightarrow>
        onmessage (Some d) s = Crashed)
   \<and> (status_in d = Some False \<and> get_prop d ''step'' = JUndefined
        \<and> to_string (get_prop d ''thought'') = Some t \<longrightarrow>
        map_option logs (deliver [Some d] s) = Some (logs s @ [''Step undefined: '' @ t]))"
proof -
  have a: "onmessage None s = Thrown SyntaxError s"
    by (simp add: onmessage_def)
  have b: "onmessage (Some d) s = Thrown TypeError s" if "status_in d = None"
    using that by (simp add: onmessage_def)
  have c: "onmessage (Some d) s = Updated s"
    if "status_in d = Some True \<and> get_prop d ''status'' \<noteq> JStr ''done''
        \<and> get_prop d ''status'' \<noteq> JStr ''error''"
    using that by (simp add: onmessage_def)
  have e: "onmessage (Some d) s =
          (if renderable (get_prop d ''result'')
           then Updated (s\<lparr>result := get_prop d ''result'', isLoading := False\<rparr>)
           else Crashed)"
    if "status_in d = Some True \<and> get_prop d ''status'' = JStr ''done''"
    using that by (simp add: onmessage_def)
  have f: "onmessage (Some d) s =
          (if renderable (get_prop d ''message'')
           then Updated (s\<lparr>error := get_prop d ''message'', isLoading := False\<rparr>)
           else Crashed)"
    if "status_in d = Some True \<and> get_prop d ''status'' = JStr ''error''"
    using that by (simp add: onmessage_def)
  have g: "onmessage (Some d) s = Updated (s\<lparr>logs := logs s @ [''Step '' @ n @ '': '' @ t]\<rparr>)"
    if "status_in d = Some False \<and> to_string (get_prop d ''step'') = Some n
        \<and> to_string (get_prop d ''thought'') = Some t
        \<and> \<not> truthy (get_prop d ''screenshot'')"
    using that by (simp add: onmessage_def step_line_def)
  have h: "onmessage (Some d) s =
          Updated (s\<lparr>logs := logs s @ [''Step '' @ n @ '': '' @ t],
                     screenshot := Some (''data:image/png;base64,'' @ shot)\<rparr>)"
    if "status_in d = Some False \<and> to_string (get_prop d ''step'') = Some n
        \<and> to_string (get_prop d ''thought'') = Some t
        \<and> truthy (get_prop d ''screenshot'')
        \<and> to_string (get_prop d ''screenshot'') = Some shot"
    using that by (simp add: onmessage_def step_line_def)
  have i: "onmessage (Some d) s =
          Thrown TypeError (s\<lparr>logs := logs s @ [''Step '' @ n @ '': '' @ t]\<rparr>)"
    if "status_in d = Some False \<and> to_string (get_prop d ''step'') = Some n
        \<and> to_string (get_prop d ''thought'') = Some t
        \<and> truthy (get_prop d ''screenshot'')
        \<and> to_string (get_prop d ''screenshot'') = None"
    using that by (simp add: onmessage_def step_line_def)
  have j: "onmessage (Some d) s = Crashed"
    if "status_in d = Some False
        \<and> (to_string (get_prop d ''step'') = None \<or> to_string (get_prop d ''thought'') = None)"
    using that by (auto simp: onmessage_def step_line_def split: option.splits)
  have k: "map_option logs (deliver [Some d] s) = Some (logs s @ [''Step undefined: '' @ t])"
    if "status_in d = Some False \<and> get_prop d ''step'' = JUndefined
        \<and> to_string (get_prop d ''thought'') = Some t"
    using that by (simp add: onmessage_def step_line_def split: option.splits)
  from a b c e f g h i j k show ?thesis by blast
qed

theorem malformed_message_witness:
  "valid (JObj [(''status'', JStr ''done'')])
   \<and> status_in (JObj [(''status'', JStr ''done'')]) = Some True
   \<and> get_prop (JObj [(''status'', JStr ''done'')]) ''status'' = JStr ''done''
   \<and> onmessage (Some (JObj [(''status'', JStr ''done'')])) (initial\<lparr>isLoading := True\<rparr>) =
       Updated (initial\<lparr>result := JUndefined, isLoading := False\<rparr>)
   \<and> valid (JObj [(''status'', JStr ''error''), (''message'', JObj [(''code'', JNum 500)])])
   \<and> onmessage
       (Some (JObj [(''status'', JStr ''error''), (''message'', JObj [(''code'', JNum 500)])]))
       (initial\<lparr>isLoading := True\<rparr>) = Crashed
   \<and> valid (JObj [(''step'', JStr ''two''), (''thought'', JNum 5),
                  (''screenshot'', JObj [(''toString'', JNum 1)])])
   \<and> status_in (JObj [(''step'', JStr ''two''), (''thought'', JNum 5),
                  (''screenshot'', JObj [(''toString'', JNum 1)])]) = Some False
   \<and> onmessage
       (Some (JObj [(''step'', JStr ''two''), (''thought'', JNum 5),
                    (''screenshot'', JObj [(''toString'', JNum 1)])]))
       initial = Thrown TypeError (initial\<lparr>logs := [''Step two: 5'']\<rparr>)
   \<and> valid (JObj [(''thought'', JObj [(''toString'', JNum 1)])])
   \<and> onmessage (Some (JObj [(''thought'', JObj [(''toString'', JNum 1)])])) initial = Crashed
   \<and> valid (JArr [JStr ''hello''])
   \<and> get_prop (JArr [JStr ''hello'']) ''step'' = JUndefined
   \<and> map_option logs (deliver [Some (JArr [JStr ''hello''])] initial) =
       Some [''Step undefined: undefined'']
   \<and> valid (JObj [(''status'', JStr ''paused'')])
   \<and> onmessage (Some (JObj [(''status'', JStr ''paused'')])) initial = Updated initial
   \<and> valid (JStr ''stop'') \<and> status_in (JStr ''stop'') = None
   \<and> onmessage (Some (JStr ''stop'')) initial = Thrown TypeError initial"
proof -
  have v1: "valid (JObj [(''status'', JStr ''done'')])" by simp
  have v2: "valid (JObj [(''status'', JStr ''error''), (''message'', JObj [(''code'', JNum 500)])])"
    by (simp add: safe_integer_def)
  have v3: "valid (JObj [(''step'', JStr ''two''), (''thought'', JNum 5),
                  (''screenshot'', JObj [(''toString'', JNum 1)])])"
    by (simp add: safe_integer_def)
  have v4: "valid (JObj [(''thought'', JObj [(''toString'', JNum 1)])])"
    by (simp add: safe_integer_def)
  have v5: "valid (JArr [JStr ''hello''])" by simp
  have v6: "valid (JObj [(''status'', JStr ''paused'')])" by simp
  have v7: "valid (JStr ''stop'')" by simp
  show ?thesis
    using v1 v2 v3 v4 v5 v6 v7
      malformed_message [OF v1, where s = "initial\<lparr>isLoading := True\<rparr>"]
      malformed_message [OF v2, where s = "initial\<lparr>isLoading := True\<rparr>"]
      malformed_message [OF v3, where s = initial and n = "''two''" and t = "''5''"]
      malformed_message [OF v4, where s = initial]
      malformed_message [OF v5, where s = initial and t = "''undefined''"]
      malformed_message [OF v6, where s = initial]
      malformed_message [OF v7, where s = initial]
    by (simp add: initial_def show_int_digit)
qed

section \<open>Submission\<close>

text \<open>
  Claim C3.  While the session is running, or when the task text is empty,
  \<^verbatim>\<open>handleSubmit\<close> changes no state and issues no request (the whole call ends at the
  guard, whatever the reply would have been).  In every other case, that is not running
  and a task text that is not empty, the call is accepted: it empties the log, clears the
  screenshot, the result and the error, sets the running flag and issues one request
  carrying the task.
\<close>

theorem submit_guard:
  "(task s = [] \<or> isLoading s \<longrightarrow>
      handleSubmit_begin s = (s, [PreventDefault])
      \<and> handleSubmit r arriving s = Some (s, [PreventDefault])
      \<and> requests (snd (handleSubmit_begin s)) = [])
   \<and> (task s \<noteq> [] \<and> \<not> isLoading s \<longrightarrow>
      handleSubmit_begin s =
        (s\<lparr>logs := [], screenshot := None, result := JStr [], error := JNull,
            isLoading := True\<rparr>,
         [PreventDefault, Fetch (task s)])
      \<and> requests (snd (handleSubmit_begin s)) = [task s])"
  by (simp add: handleSubmit_begin_def handleSubmit_def)

theorem submit_guard_witness:
  "isLoading \<lparr>task = ''task X'', logs = [''Step 1: searching''], screenshot = None,
        result = JStr [], error = JNull, isLoading = True\<rparr>
   \<and> handleSubmit (Response True (Inr JNull)) []
       \<lparr>task = ''task X'', logs = [''Step 1: searching''], screenshot = None,
          result = JStr [], error = JNull, isLoading = True\<rparr> =
     Some (\<lparr>task = ''task X'', logs = [''Step 1: searching''], screenshot = None,
          result = JStr [], error = JNull, isLoading = True\<rparr>, [PreventDefault])
   \<and> task \<lparr>task = [], logs = [], screenshot = None,
          result = JStr [], error = JNull, isLoading = False\<rparr> = []
   \<and> handleSubmit_begin \<lparr>task = [], logs = [], screenshot = None,
          result = JStr [], error = JNull, isLoading = False\<rparr> =
       (\<lparr>task = [], logs = [], screenshot = None,
          result = JStr [], error = JNull, isLoading = False\<rparr>, [PreventDefault])
   \<and> task \<lparr>task = ''task Y'', logs = [''Step 1: searching''],
          screenshot = Some ''data:image/png;base64,QUJD'',
          result = JStr ''OK'', error = JStr ''late'', isLoading = False\<rparr> \<noteq> []
   \<and> \<not> isLoading \<lparr>task = ''task Y'', logs = [''Step 1: searching''],
          screenshot = Some ''data:image/png;base64,QUJD'',
          result = JStr ''OK'', error = JStr ''late'', isLoading = False\<rparr>
   \<and> handleSubmit_begin \<lparr>task = ''task Y'', logs = [''Step 1: searching''],
          screenshot = Some ''data:image/png;base64,QUJD'',
          result = JStr ''OK'', error = JStr ''late'', isLoading = False\<rparr> =
       (\<lparr>task = ''task Y'', logs = [], screenshot = None,
          result = JStr [], error = JNull, isLoading = True\<rparr>,
        [PreventDefault, Fetch ''task Y''])"
  using
    submit_guard [of "\<lparr>task = ''task X'', logs = [''Step 1: searching''], screenshot = None,
        result = JStr [], error = JNull, isLoading = True\<rparr>" "Response True (Inr JNull)" "[]"]
    submit_guard [of "\<lparr>task = [], logs = [], screenshot = None,
          result = JStr [], error = JNull, isLoading = False\<rparr>" "Response True (Inr JNull)" "[]"]
    submit_guard [of "\<lparr>task = ''task Y'', logs = [''Step 1: searching''],
          screenshot = Some ''data:image/png;base64,QUJD'',
          result = JStr ''OK'', error = JStr ''late'', isLoading = False\<rparr>"
          "Response True (Inr JNull)" "[]"]
  by simp

text \<open>
  Claim C4.  Take an accepted call, and let \<open>s'\<close> be the state when the request ends:
  the state the call set, after the frames that arrived on the channel meanwhile, none
  of which has taken the component down.  When the request fails, by an exception of
  \<^verbatim>\<open>fetch\<close> with message \<open>m\<close>, by a response that is not \<^verbatim>\<open>ok\<close> (then \<open>m\<close> is
  \<^verbatim>\<open>Failed to start task\<close>) or by a body that \<^verbatim>\<open>response.json()\<close> rejects with
  message \<open>m\<close>, the call ends with the running flag cleared and \<^verbatim>\<open>error\<close> equal to
  \<open>m\<close>, and the requests of the whole call are the one issued at its start: there is no
  second attempt.
\<close>

theorem failed_request:
  assumes "task s \<noteq> []" and "\<not> isLoading s"
    and "list_all valid_frame arriving"
    and "deliver arriving (fst (handleSubmit_begin s)) = Some s'"
    and "r = Rejected m \<or> r = Response False body \<and> m = ''Failed to start task''
         \<or> r = Response True (Inl m)"
  shows "map_option fst (handleSubmit r arriving s) =
           Some (s'\<lparr>error := JStr m, isLoading := False\<rparr>)
         \<and> map_option (requests \<circ> snd) (handleSubmit r arriving s) = Some [task s]"
  using assms
  by (auto simp: handleSubmit_def handleSubmit_begin_def handleSubmit_end_def catch_err_def)

theorem failed_request_witness:
  "task initial \<noteq> [] \<and> \<not> isLoading initial
   \<and> list_all valid_frame [Some (StepData 1 ''searching'' [] None)]
   \<and> deliver [Some (StepData 1 ''searching'' [] None)] (fst (handleSubmit_begin initial)) =
       Some (initial\<lparr>logs := [''Step 1: searching''], isLoading := True\<rparr>)
   \<and> map_option fst
       (handleSubmit (Response False (Inr JNull)) [Some (StepData 1 ''searching'' [] None)]
          initial) =
       Some (initial\<lparr>logs := [''Step 1: searching''], error := JStr ''Failed to start task'',
                     isLoading := False\<rparr>)
   \<and> map_option (requests \<circ> snd)
       (handleSubmit (Response False (Inr JNull)) [Some (StepData 1 ''searching'' [] None)]
          initial) =
       Some [task initial]"
proof -
  have t: "task initial \<noteq> []" by (simp add: initial_def)
  have l: "\<not> isLoading initial" by (simp add: initial_def)
  have v: "list_all valid_frame [Some (StepData 1 ''searching'' [] None)]"
    by (simp add: StepData_def safe_integer_def)
  have d: "deliver [Some (StepData 1 ''searching'' [] None)] (fst (handleSubmit_begin initial)) =
       Some (initial\<lparr>logs := [''Step 1: searching''], isLoading := True\<rparr>)"
    by (simp add: handleSubmit_begin_def onmessage_StepData show_int_digit initial_def)
  show ?thesis
    using t l v d
      failed_request [OF t l v d, of "Response False (Inr JNull)" "''Failed to start task''"
        "Inr JNull"]
    by simp
qed

section \<open>Cancellation outside a running session\<close>

text \<open>
  Claim C5.  A cancel is a click on the Stop button, the one place that calls
  \<^verbatim>\<open>handleStop\<close>.  While the session is not running the button is disabled: the click
  writes nothing on the channel, the token included, and changes no state.  While the
  session is running the click reaches \<^verbatim>\<open>handleStop\<close>, which writes the token when
  the socket is open and nothing otherwise.
\<close>

theorem cancel_guard:
  "(\<not> isLoading s \<longrightarrow> stop_click wsRef s = (s, []))
   \<and> (isLoading s \<longrightarrow>
        stop_click wsRef s = (s, if wsRef = Some OPEN then [WsSend ''stop''] else []))"
  by (cases wsRef) (simp_all add: stop_click_def handleStop_def)

theorem cancel_guard_witness:
  "\<not> isLoading initial \<and> stop_click (Some OPEN) initial = (initial, [])
   \<and> \<not> isLoading \<lparr>task = ''task X'', logs = [''Step 1: searching''], screenshot = None,
          result = JStr ''OK'', error = JNull, isLoading = False\<rparr>
   \<and> stop_click (Some OPEN)
       \<lparr>task = ''task X'', logs = [''Step 1: searching''], screenshot = None,
          result = JStr ''OK'', error = JNull, isLoading = False\<rparr> =
       (\<lparr>task = ''task X'', logs = [''Step 1: searching''], screenshot = None,
          result = JStr ''OK'', error = JNull, isLoading = False\<rparr>, [])
   \<and> isLoading (initial\<lparr>isLoading := True\<rparr>)
   \<and> stop_click (Some OPEN) (initial\<lparr>isLoading := True\<rparr>) =
       (initial\<lparr>isLoading := True\<rparr>, [WsSend ''stop''])"
  using cancel_guard [of initial "Some OPEN"]
    cancel_guard [of "\<lparr>task = ''task X'', logs = [''Step 1: searching''], screenshot = None,
          result = JStr ''OK'', error = JNull, isLoading = False\<rparr>" "Some OPEN"]
    cancel_guard [of "initial\<lparr>isLoading := True\<rparr>" "Some OPEN"]
  by (simp add: initial_def)

section \<open>The latest screenshot\<close>

text \<open>
  Claim C8 says that each step event carrying a screenshot payload replaces the
  screenshot.  The handler tests \<^verbatim>\<open>if (stepData.screenshot)\<close>, which the empty string
  fails: a step event whose payload is the empty string leaves the frame of the step
  before.
\<close>

theorem empty_screenshot_counterexample:
  "onmessage (Some (StepData 2 ''clicking'' [] (Some [])))
       \<lparr>task = ''task X'', logs = [''Step 1: searching''],
          screenshot = Some ''data:image/png;base64,QUJD'',
          result = JStr [], error = JNull, isLoading = True\<rparr> =
     Updated \<lparr>task = ''task X'', logs = [''Step 1: searching'', ''Step 2: clicking''],
        screenshot = Some ''data:image/png;base64,QUJD'',
        result = JStr [], error = JNull, isLoading = True\<rparr>"
  by (simp add: onmessage_StepData show_int_digit)

text \<open>
  Claim C8, amended.  A step event whose screenshot payload is not empty replaces the
  screenshot by the data URL of that payload alone (nothing of the old one is kept); a
  step event without a payload, or with an empty one, leaves the screenshot unchanged;
  and neither terminal event changes it, so the last frame stays after the session ends.
\<close>

theorem screenshot_overwritten:
  "map_option screenshot (deliver [Some (StepData n t a (Some p))] s) =
     Some (if p = [] then screenshot s else Some (''data:image/png;base64,'' @ p))
   \<and> map_option screenshot (deliver [Some (StepData n t a None)] s) = Some (screenshot s)
   \<and> map_option screenshot (deliver [Some (DoneData r)] s) = Some (screenshot s)
   \<and> map_option screenshot (deliver [Some (ErrorData m)] s) = Some (screenshot s)"
  by (simp add: onmessage_StepData onmessage_DoneData onmessage_ErrorData)

end
